theory Spec2Isabelle
  imports Complex_Main
begin

section \<open>JavaScript numbers\<close>

text \<open>
  The calculator of \<^verbatim>\<open>script.js\<close> computes with JavaScript numbers, that is IEEE 754
  binary64 values. A number is modelled as not-a-number, one of the two infinities, or a
  finite value given by the rational it denotes. Every operation computes the exact
  rational result and rounds it to the nearest binary64 value, ties to even, which is what
  the language prescribes.

  The two zeros are identified. The program cannot tell them apart: \<^verbatim>\<open>===\<close> and
  \<^verbatim>\<open>!==\<close> treat them as equal, \<^verbatim>\<open>toString\<close>, \<^verbatim>\<open>toFixed\<close> and
  \<^verbatim>\<open>toExponential\<close> print both without a sign, and the only division whose divisor
  can be zero is guarded by \<^verbatim>\<open>current === 0\<close>.
\<close>

datatype jsnum = NaN | PosInf | NegInf | Fin rat

function floorlog_int :: "int \<Rightarrow> int \<Rightarrow> int" where
  "floorlog_int b x = (if 1 < b \<and> b \<le> x then floorlog_int b (x div b) + 1 else 0)"
  by pat_completeness auto
termination
  by (relation "measure (\<lambda>(b, x). nat x)") (auto simp: int_div_less_self)

declare floorlog_int.simps [simp del]

text \<open>\<open>ilog b x\<close> is the integer \<open>e\<close> with \<open>b ^ e \<le> x < b ^ (e + 1)\<close>, for \<open>x > 0\<close>.\<close>

definition ilog :: "int \<Rightarrow> rat \<Rightarrow> int" where
  "ilog b x =
     (if 1 \<le> x then floorlog_int b \<lfloor>x\<rfloor>
      else (let y = 1 / x; c = floorlog_int b \<lfloor>y\<rfloor>
            in if of_int (b ^ nat c) = y then - c else - c - 1))"

definition pow_int :: "int \<Rightarrow> int \<Rightarrow> rat" where
  "pow_int b e = (if 0 \<le> e then of_int (b ^ nat e) else 1 / of_int (b ^ nat (- e)))"

definition round_half_even :: "rat \<Rightarrow> int" where
  "round_half_even x =
     (let f = \<lfloor>x\<rfloor>; d = x - of_int f
      in if d < 1 / 2 then f else if 1 / 2 < d then f + 1 else if even f then f else f + 1)"

definition round_half_up :: "rat \<Rightarrow> int" where
  "round_half_up x = \<lfloor>x + 1 / 2\<rfloor>"

text \<open>
  Rounding to binary64: 53 significant bits, the exponent of the leading bit no less than
  \<open>- 1022\<close> (below that the values are subnormal, spaced \<open>2 ^ - 1074\<close> apart), and
  overflow to an infinity when the rounded value reaches \<open>2 ^ 1024\<close>.
\<close>

definition round_double :: "rat \<Rightarrow> jsnum" where
  "round_double x =
     (if x = 0 then Fin 0
      else (let a = \<bar>x\<bar>;
                e = max (ilog 2 a) (- 1022);
                q = pow_int 2 (e - 52);
                r = of_int (round_half_even (a / q)) * q
            in if pow_int 2 1024 \<le> r then (if x < 0 then NegInf else PosInf)
               else Fin (if x < 0 then - r else r)))"

subsection \<open>Arithmetic and comparison\<close>

fun js_neg :: "jsnum \<Rightarrow> jsnum" where
  "js_neg NaN = NaN"
| "js_neg PosInf = NegInf"
| "js_neg NegInf = PosInf"
| "js_neg (Fin x) = Fin (- x)"

fun js_abs :: "jsnum \<Rightarrow> jsnum" where
  "js_abs NaN = NaN"
| "js_abs PosInf = PosInf"
| "js_abs NegInf = PosInf"
| "js_abs (Fin x) = Fin \<bar>x\<bar>"

fun js_add :: "jsnum \<Rightarrow> jsnum \<Rightarrow> jsnum" where
  "js_add NaN _ = NaN"
| "js_add _ NaN = NaN"
| "js_add PosInf NegInf = NaN"
| "js_add NegInf PosInf = NaN"
| "js_add PosInf _ = PosInf"
| "js_add NegInf _ = NegInf"
| "js_add (Fin x) PosInf = PosInf"
| "js_add (Fin x) NegInf = NegInf"
| "js_add (Fin x) (Fin y) = round_double (x + y)"

definition js_sub :: "jsnum \<Rightarrow> jsnum \<Rightarrow> jsnum" where
  "js_sub a b = js_add a (js_neg b)"

text \<open>The sign of a value that is not NaN: \<open>1\<close>, \<open>0\<close> or \<open>- 1\<close>.\<close>

fun js_sign :: "jsnum \<Rightarrow> int" where
  "js_sign NaN = 0"
| "js_sign PosInf = 1"
| "js_sign NegInf = - 1"
| "js_sign (Fin x) = (if x < 0 then - 1 else if x = 0 then 0 else 1)"

definition signed_inf :: "int \<Rightarrow> jsnum" where
  "signed_inf sg = (if sg = 0 then NaN else if sg < 0 then NegInf else PosInf)"

fun js_mul :: "jsnum \<Rightarrow> jsnum \<Rightarrow> jsnum" where
  "js_mul NaN _ = NaN"
| "js_mul _ NaN = NaN"
| "js_mul (Fin x) (Fin y) = round_double (x * y)"
| "js_mul a b = signed_inf (js_sign a * js_sign b)"

text \<open>
  Division. A finite value divided by zero is an infinity with the sign of the dividend
  (zero by zero is NaN); the calculator never divides by zero, see \<open>calculate\<close> below.
\<close>

fun js_div :: "jsnum \<Rightarrow> jsnum \<Rightarrow> jsnum" where
  "js_div NaN _ = NaN"
| "js_div _ NaN = NaN"
| "js_div (Fin x) (Fin y) = (if y = 0 then signed_inf (js_sign (Fin x)) else round_double (x / y))"
| "js_div (Fin x) _ = Fin 0"
| "js_div a (Fin y) = signed_inf (js_sign a * (if y < 0 then - 1 else 1))"
| "js_div _ _ = NaN"

text \<open>Comparisons: every ordering comparison with NaN is false, \<^verbatim>\<open>!==\<close> with NaN is true.\<close>

fun js_lt :: "jsnum \<Rightarrow> jsnum \<Rightarrow> bool" where
  "js_lt NaN _ = False"
| "js_lt _ NaN = False"
| "js_lt PosInf _ = False"
| "js_lt _ NegInf = False"
| "js_lt NegInf _ = True"
| "js_lt (Fin x) PosInf = True"
| "js_lt (Fin x) (Fin y) = (x < y)"

fun js_strict_eq :: "jsnum \<Rightarrow> jsnum \<Rightarrow> bool" where
  "js_strict_eq NaN _ = False"
| "js_strict_eq _ NaN = False"
| "js_strict_eq a b = (a = b)"

definition js_le :: "jsnum \<Rightarrow> jsnum \<Rightarrow> bool" where
  "js_le a b = (js_lt a b \<or> js_strict_eq a b)"

definition js_ge :: "jsnum \<Rightarrow> jsnum \<Rightarrow> bool" where
  "js_ge a b = js_le b a"

fun isFinite :: "jsnum \<Rightarrow> bool" where
  "isFinite (Fin x) = True"
| "isFinite _ = False"

subsection \<open>Square root\<close>

function isqrt :: "int \<Rightarrow> int" where
  "isqrt n =
     (if n < 2 then (if n < 1 then 0 else 1)
      else (let r = 2 * isqrt (n div 4) in if (r + 1) * (r + 1) \<le> n then r + 1 else r))"
  by pat_completeness auto
termination
  by (relation "measure nat") auto

declare isqrt.simps [simp del]

text \<open>
  \<^verbatim>\<open>Math.sqrt\<close>, correctly rounded: with \<open>q\<close> the spacing of the binary64 values around
  the root, the root lies between \<open>m * q\<close> and \<open>(m + 1) * q\<close> for \<open>m\<close> the integer square
  root of \<open>x / q\<^sup>2\<close>, and the nearer of the two is returned.
\<close>

definition sqrt_round :: "rat \<Rightarrow> rat" where
  "sqrt_round x =
     (let e = ilog 2 x div 2;
          q = pow_int 2 (e - 52);
          t = x / (q * q);
          m = isqrt \<lfloor>t\<rfloor>;
          h = (of_int m + 1 / 2) * (of_int m + 1 / 2);
          n = (if t < h then m else if h < t then m + 1 else if even m then m else m + 1)
      in of_int n * q)"

fun Math_sqrt :: "jsnum \<Rightarrow> jsnum" where
  "Math_sqrt NaN = NaN"
| "Math_sqrt PosInf = PosInf"
| "Math_sqrt NegInf = NaN"
| "Math_sqrt (Fin x) = (if x < 0 then NaN else if x = 0 then Fin 0 else Fin (sqrt_round x))"

subsection \<open>Decimal digits\<close>

definition digit_char :: "int \<Rightarrow> char" where
  "digit_char d = ''0123456789'' ! nat (d mod 10)"

function digits_of :: "int \<Rightarrow> string" where
  "digits_of n =
     (if n < 10 then [digit_char n] else digits_of (n div 10) @ [digit_char (n mod 10)])"
  by pat_completeness auto
termination
  by (relation "measure nat") auto

declare digits_of.simps [simp del]

definition is_digit :: "char \<Rightarrow> bool" where
  "is_digit c = (c \<in> set ''0123456789'')"

definition digit_val :: "char \<Rightarrow> int" where
  "digit_val c = int (length (takeWhile (\<lambda>d. d \<noteq> c) ''0123456789'')) mod 10"

definition digits_val :: "string \<Rightarrow> int" where
  "digits_val ds = foldl (\<lambda>a c. 10 * a + digit_val c) 0 ds"

subsection \<open>Number to string: \<^verbatim>\<open>toString\<close>\<close>

text \<open>
  \<^verbatim>\<open>Number.prototype.toString\<close> prints the shortest decimal \<open>s * 10 ^ (n - k)\<close>, \<open>s\<close> of
  \<open>k\<close> digits, that rounds to the number; of several such \<open>s\<close> the one nearest to the
  number. For a given \<open>k\<close> only the two \<open>k\<close>-digit decimals around the number can round
  to it; \<open>candidate\<close> tests them. Seventeen digits always determine a binary64 value.
\<close>

definition candidate :: "nat \<Rightarrow> rat \<Rightarrow> (int \<times> int) option" where
  "candidate k a =
     (let e10 = ilog 10 a + 1;
          sc = pow_int 10 (e10 - int k);
          t = a / sc;
          lo = \<lfloor>t\<rfloor>; hi = lo + 1;
          oklo = (round_double (of_int lo * sc) = Fin a);
          okhi = (round_double (of_int hi * sc) = Fin a);
          dlo = t - of_int lo; dhi = of_int hi - t
      in if oklo \<and> (\<not> okhi \<or> dlo < dhi \<or> (dlo = dhi \<and> even lo)) then Some (lo, e10)
         else if okhi then (if hi = 10 ^ k then Some (10 ^ (k - 1), e10 + 1) else Some (hi, e10))
         else None)"

definition nearest :: "nat \<Rightarrow> rat \<Rightarrow> int \<times> int" where
  "nearest k a =
     (let e10 = ilog 10 a + 1;
          n = round_half_even (a / pow_int 10 (e10 - int k))
      in if n = 10 ^ k then (10 ^ (k - 1), e10 + 1) else (n, e10))"

fun shortest :: "nat \<Rightarrow> nat \<Rightarrow> rat \<Rightarrow> int \<times> int" where
  "shortest 0 k a = nearest k a"
| "shortest (Suc fuel) k a =
     (case candidate k a of Some r \<Rightarrow> r | None \<Rightarrow> shortest fuel (Suc k) a)"

definition zeros :: "int \<Rightarrow> string" where
  "zeros n = replicate (nat n) (CHR ''0'')"

definition exponent_text :: "int \<Rightarrow> string" where
  "exponent_text e = (if e < 0 then ''-'' else ''+'') @ digits_of \<bar>e\<bar>"

definition toString_pos :: "rat \<Rightarrow> string" where
  "toString_pos a =
     (let (s, n) = shortest 16 1 a; ds = digits_of s; k = int (length ds)
      in if - 5 \<le> n \<and> n \<le> 21 then
           (if k \<le> n then ds @ zeros (n - k)
            else if 0 < n then take (nat n) ds @ ''.'' @ drop (nat n) ds
            else ''0.'' @ zeros (- n) @ ds)
         else if k = 1 then ds @ ''e'' @ exponent_text (n - 1)
         else take 1 ds @ ''.'' @ drop 1 ds @ ''e'' @ exponent_text (n - 1))"

fun toString :: "jsnum \<Rightarrow> string" where
  "toString NaN = ''NaN''"
| "toString PosInf = ''Infinity''"
| "toString NegInf = ''-Infinity''"
| "toString (Fin x) =
     (if x = 0 then ''0'' else if x < 0 then ''-'' @ toString_pos (- x) else toString_pos x)"

subsection \<open>\<^verbatim>\<open>toExponential\<close> and \<^verbatim>\<open>toFixed\<close>\<close>

text \<open>
  \<^verbatim>\<open>x.toExponential(f)\<close>: the integer \<open>n\<close> of \<open>f + 1\<close> digits and the exponent \<open>e\<close> with
  \<open>n * 10 ^ (e - f)\<close> nearest to \<open>x\<close>, the larger \<open>n\<close> on a tie, printed with a point after
  the first digit and the exponent with its sign and no padding.
\<close>

definition toExponential_pos :: "nat \<Rightarrow> rat \<Rightarrow> string" where
  "toExponential_pos f a =
     (let e0 = ilog 10 a;
          n0 = round_half_up (a * pow_int 10 (int f - e0));
          (n, e) = (if n0 = 10 ^ (f + 1) then (10 ^ f, e0 + 1) else (n0, e0));
          ds = digits_of n;
          m = (if f \<noteq> 0 then take 1 ds @ ''.'' @ drop 1 ds else ds)
      in m @ ''e'' @ exponent_text e)"

fun toExponential :: "nat \<Rightarrow> jsnum \<Rightarrow> string" where
  "toExponential f (Fin x) =
     (if x = 0 then (if f \<noteq> 0 then ''0.'' @ zeros (int f) else ''0'') @ ''e+0''
      else if x < 0 then ''-'' @ toExponential_pos f (- x)
      else toExponential_pos f x)"
| "toExponential f v = toString v"

text \<open>
  \<^verbatim>\<open>x.toFixed(f)\<close>: the integer \<open>n\<close> with \<open>n / 10 ^ f\<close> nearest to \<open>x\<close>, the larger on a
  tie, padded with zeros on the left to \<open>f + 1\<close> digits, a point before the last \<open>f\<close>.
\<close>

definition toFixed_pos :: "nat \<Rightarrow> rat \<Rightarrow> string" where
  "toFixed_pos f a =
     (let n = round_half_up (a * of_int (10 ^ f));
          m = digits_of n;
          m = (if length m \<le> f then zeros (int f + 1 - int (length m)) @ m else m)
      in if f \<noteq> 0 then take (length m - f) m @ ''.'' @ drop (length m - f) m else m)"

fun toFixed :: "nat \<Rightarrow> jsnum \<Rightarrow> string" where
  "toFixed f (Fin x) =
     (if 10 ^ 21 \<le> \<bar>x\<bar> then toString (Fin x)
      else if x < 0 then ''-'' @ toFixed_pos f (- x)
      else toFixed_pos f x)"
| "toFixed f v = toString v"

subsection \<open>String to number: \<^verbatim>\<open>parseFloat\<close>\<close>

text \<open>
  \<^verbatim>\<open>parseFloat\<close> skips leading white space, reads the longest prefix that is a decimal
  literal (an optional sign, then \<^verbatim>\<open>Infinity\<close> or digits with an optional fraction and
  an optional exponent) and rounds its value; with no such prefix the result is NaN.
  Strings are lists of 8-bit characters here, so only the ASCII white space is skipped.
\<close>

definition is_space :: "char \<Rightarrow> bool" where
  "is_space c = (c \<in> set [CHR 0x09, CHR 0x0A, CHR 0x0B, CHR 0x0C, CHR 0x0D, CHR 0x20])"

definition parse_exponent :: "string \<Rightarrow> int" where
  "parse_exponent s =
     (case s of
        [] \<Rightarrow> 0
      | c # r \<Rightarrow>
          if c = CHR ''e'' \<or> c = CHR ''E'' then
            (case r of
               [] \<Rightarrow> 0
             | d # r' \<Rightarrow>
                 if d = CHR ''-'' then
                   (if takeWhile is_digit r' = [] then 0 else - digits_val (takeWhile is_digit r'))
                 else if d = CHR ''+'' then digits_val (takeWhile is_digit r')
                 else digits_val (takeWhile is_digit r))
          else 0)"

definition parse_unsigned :: "string \<Rightarrow> jsnum option" where
  "parse_unsigned s =
     (if take 8 s = ''Infinity'' then Some PosInf
      else (let ip = takeWhile is_digit s;
                r1 = dropWhile is_digit s;
                fp = (case r1 of [] \<Rightarrow> [] | c # t \<Rightarrow> if c = CHR ''.'' then takeWhile is_digit t else []);
                r2 = (case r1 of [] \<Rightarrow> [] | c # t \<Rightarrow> if c = CHR ''.'' then dropWhile is_digit t else r1)
            in if ip = [] \<and> fp = [] then None
               else Some (round_double (of_int (digits_val (ip @ fp))
                            * pow_int 10 (parse_exponent r2 - int (length fp))))))"

definition parseFloat :: "string \<Rightarrow> jsnum" where
  "parseFloat s =
     (let t = dropWhile is_space s
      in case t of
           [] \<Rightarrow> NaN
         | c # u \<Rightarrow>
             if c = CHR ''-'' then (case parse_unsigned u of None \<Rightarrow> NaN | Some v \<Rightarrow> js_neg v)
             else if c = CHR ''+'' then (case parse_unsigned u of None \<Rightarrow> NaN | Some v \<Rightarrow> v)
             else (case parse_unsigned t of None \<Rightarrow> NaN | Some v \<Rightarrow> v))"

section \<open>The calculator\<close>

subsection \<open>\<^verbatim>\<open>formatResult\<close>\<close>

text \<open>The literals \<^verbatim>\<open>1e12\<close> and \<^verbatim>\<open>1e-6\<close> of the source, as the numbers they denote.\<close>

definition lit_1e12 :: jsnum where
  "lit_1e12 = round_double (10 ^ 12)"

definition lit_1e_6 :: jsnum where
  "lit_1e_6 = round_double (1 / 10 ^ 6)"

text \<open>\<^verbatim>\<open>formatted.split('.')[1]\<close>: the text between the first point and the next one.\<close>

definition split_dot_1 :: "string \<Rightarrow> string" where
  "split_dot_1 s = takeWhile (\<lambda>c. c \<noteq> CHR ''.'') (drop 1 (dropWhile (\<lambda>c. c \<noteq> CHR ''.'') s))"

text \<open>
  \<^verbatim>\<open>formatted.replace(/\.?0+$/, '')\<close>: the match is the run of zeros that ends the
  string, with the point before it when there is one; without a zero at the end nothing
  matches and the string is returned as it is.
\<close>

definition remove_trailing_zeros :: "string \<Rightarrow> string" where
  "remove_trailing_zeros s =
     (let r = dropWhile (\<lambda>c. c = CHR ''0'') (rev s)
      in if r = rev s then s
         else (case r of [] \<Rightarrow> [] | c # t \<Rightarrow> if c = CHR ''.'' then rev t else rev r))"

definition formatResult :: "jsnum \<Rightarrow> string" where
  "formatResult result =
     (if \<not> isFinite result then ''Error''
      else
        (let formatted = toString result;
             formatted =
               (if js_ge (js_abs result) lit_1e12
                   \<or> (js_le (js_abs result) lit_1e_6 \<and> \<not> js_strict_eq result (Fin 0))
                then toExponential 6 result
                else
                  (let decimalPlaces =
                         (if CHR ''.'' \<in> set formatted then length (split_dot_1 formatted) else 0)
                   in if 8 < decimalPlaces then remove_trailing_zeros (toFixed 8 result)
                      else formatted))
         in if 12 < length formatted then toExponential 5 result else formatted))"

subsection \<open>State\<close>

text \<open>
  The fields of the \<^verbatim>\<open>Calculator\<close> object, and what it writes to the page: the text and
  the \<^verbatim>\<open>error\<close> class of the display element, the text of the operation display, the
  operator button carrying the \<^verbatim>\<open>active\<close> class (the page is taken to have one button
  for each of the four operators) and the callbacks handed to \<^verbatim>\<open>setTimeout\<close>, each with
  its delay in milliseconds, in the order they were scheduled.

  The operator is one of the four action names that \<^verbatim>\<open>handleAction\<close> passes to
  \<^verbatim>\<open>setOperator\<close>, or \<^verbatim>\<open>null\<close>.
\<close>

datatype op = Add | Subtract | Multiply | Divide

datatype callback = DoClear | RestoreText string

record calculator =
  currentInput :: string
  previousInput :: "string option"
  operator :: "op option"
  waitingForNewInput :: bool
  memory :: jsnum
  operationHistory :: "string list"
  displayText :: string
  displayError :: bool
  operationDisplayText :: string
  activeButton :: "op option"
  timers :: "(nat \<times> callback) list"

text \<open>
  The operator symbols. The multiplication and division signs are not ASCII; they are
  written as their UTF-8 bytes, and so is the root sign below. No length of a text that
  contains one of them is ever taken.
\<close>

fun operatorSymbols :: "op \<Rightarrow> string" where
  "operatorSymbols Add = ''+''"
| "operatorSymbols Subtract = ''-''"
| "operatorSymbols Multiply = [CHR 0xC3, CHR 0x97]"
| "operatorSymbols Divide = [CHR 0xC3, CHR 0xB7]"

definition root_sign :: string where
  "root_sign = [CHR 0xE2, CHR 0x88, CHR 0x9A]"

definition updateDisplay :: "calculator \<Rightarrow> calculator" where
  "updateDisplay s = s\<lparr>displayText := currentInput s, displayError := False\<rparr>"

text \<open>The state after the constructor has run, on a page whose operation display is empty.\<close>

definition initial :: calculator where
  "initial =
     \<lparr>currentInput = ''0'', previousInput = None, operator = None,
      waitingForNewInput = False, memory = Fin 0, operationHistory = [],
      displayText = ''0'', displayError = False, operationDisplayText = [],
      activeButton = None, timers = []\<rparr>"

subsection \<open>Operations\<close>

definition inputNumber :: "string \<Rightarrow> calculator \<Rightarrow> calculator" where
  "inputNumber number s =
     updateDisplay
       (if waitingForNewInput s then s\<lparr>currentInput := number, waitingForNewInput := False\<rparr>
        else if currentInput s = ''0'' \<and> number \<noteq> ''0'' then s\<lparr>currentInput := number\<rparr>
        else if currentInput s \<noteq> ''0'' then
          (if length (currentInput s) < 12 then s\<lparr>currentInput := currentInput s @ number\<rparr>
           else s)
        else s)"

definition inputDecimal :: "calculator \<Rightarrow> calculator" where
  "inputDecimal s =
     updateDisplay
       (if waitingForNewInput s then s\<lparr>currentInput := ''0.'', waitingForNewInput := False\<rparr>
        else if CHR ''.'' \<notin> set (currentInput s) then s\<lparr>currentInput := currentInput s @ ''.''\<rparr>
        else s)"

definition showError :: "string \<Rightarrow> calculator \<Rightarrow> calculator" where
  "showError message s =
     s\<lparr>displayText := message, displayError := True, operationDisplayText := [],
       timers := timers s @ [(2000, DoClear)]\<rparr>"

definition showTemporaryMessage :: "string \<Rightarrow> calculator \<Rightarrow> calculator" where
  "showTemporaryMessage message s =
     s\<lparr>operationDisplayText := message,
       timers := timers s @ [(1500, RestoreText (operationDisplayText s))]\<rparr>"

fun apply_op :: "op \<Rightarrow> jsnum \<Rightarrow> jsnum \<Rightarrow> jsnum" where
  "apply_op Add prev current = js_add prev current"
| "apply_op Subtract prev current = js_sub prev current"
| "apply_op Multiply prev current = js_mul prev current"
| "apply_op Divide prev current = js_div prev current"

definition calculate :: "calculator \<Rightarrow> calculator" where
  "calculate s =
     (case operator s of
        None \<Rightarrow> s
      | Some oper \<Rightarrow>
          (case previousInput s of
             None \<Rightarrow> s
           | Some previous \<Rightarrow>
               (let prev = parseFloat previous;
                    current = parseFloat (currentInput s)
                in if oper = Divide \<and> js_strict_eq current (Fin 0)
                   then showError ''Cannot divide by zero'' s
                   else updateDisplay
                          (s\<lparr>operationDisplayText :=
                                previous @ '' '' @ operatorSymbols oper @ '' ''
                                  @ currentInput s @ '' ='',
                             currentInput := formatResult (apply_op oper prev current),
                             operator := None,
                             previousInput := None,
                             waitingForNewInput := True,
                             activeButton := None\<rparr>))))"

definition setOperator :: "op \<Rightarrow> calculator \<Rightarrow> calculator" where
  "setOperator newOperator s =
     (let s1 = (if operator s \<noteq> None \<and> \<not> waitingForNewInput s then calculate s else s)
      in s1\<lparr>operator := Some newOperator,
            previousInput := Some (currentInput s1),
            waitingForNewInput := True,
            operationDisplayText := currentInput s1 @ '' '' @ operatorSymbols newOperator,
            activeButton := Some newOperator\<rparr>)"

definition calculatePercentage :: "calculator \<Rightarrow> calculator" where
  "calculatePercentage s =
     (let current = parseFloat (currentInput s);
          result = js_div current (Fin 100)
      in updateDisplay
           (s\<lparr>operationDisplayText := currentInput s @ ''% ='',
              currentInput := formatResult result,
              waitingForNewInput := True\<rparr>))"

definition calculateSquareRoot :: "calculator \<Rightarrow> calculator" where
  "calculateSquareRoot s =
     (let current = parseFloat (currentInput s)
      in if js_lt current (Fin 0) then showError ''Invalid input for square root'' s
         else updateDisplay
                (s\<lparr>operationDisplayText := root_sign @ currentInput s @ '' ='',
                   currentInput := formatResult (Math_sqrt current),
                   waitingForNewInput := True\<rparr>))"

definition memoryClear :: "calculator \<Rightarrow> calculator" where
  "memoryClear s = showTemporaryMessage ''Memory cleared'' (s\<lparr>memory := Fin 0\<rparr>)"

definition memoryRecall :: "calculator \<Rightarrow> calculator" where
  "memoryRecall s =
     showTemporaryMessage ''Memory recalled''
       (updateDisplay (s\<lparr>currentInput := formatResult (memory s), waitingForNewInput := True\<rparr>))"

definition memoryAdd :: "calculator \<Rightarrow> calculator" where
  "memoryAdd s =
     showTemporaryMessage ''Added to memory''
       (s\<lparr>memory := js_add (memory s) (parseFloat (currentInput s))\<rparr>)"

definition memorySubtract :: "calculator \<Rightarrow> calculator" where
  "memorySubtract s =
     showTemporaryMessage ''Subtracted from memory''
       (s\<lparr>memory := js_sub (memory s) (parseFloat (currentInput s))\<rparr>)"

definition clear :: "calculator \<Rightarrow> calculator" where
  "clear s =
     updateDisplay
       (s\<lparr>currentInput := ''0'', previousInput := None, operator := None,
          waitingForNewInput := False, operationDisplayText := [],
          activeButton := None, displayError := False\<rparr>)"

text \<open>The actions of \<^verbatim>\<open>handleAction\<close>; any other action name does nothing.\<close>

datatype action =
    ActClear | ActDecimal | ActEquals | ActOperator op | ActPercentage | ActSquareRoot
  | ActMemoryClear | ActMemoryRecall | ActMemoryAdd | ActMemorySubtract

fun handleAction :: "action \<Rightarrow> calculator \<Rightarrow> calculator" where
  "handleAction ActClear s = clear s"
| "handleAction ActDecimal s = inputDecimal s"
| "handleAction ActEquals s = calculate s"
| "handleAction (ActOperator oper) s = setOperator oper s"
| "handleAction ActPercentage s = calculatePercentage s"
| "handleAction ActSquareRoot s = calculateSquareRoot s"
| "handleAction ActMemoryClear s = memoryClear s"
| "handleAction ActMemoryRecall s = memoryRecall s"
| "handleAction ActMemoryAdd s = memoryAdd s"
| "handleAction ActMemorySubtract s = memorySubtract s"

text \<open>What a callback handed to \<^verbatim>\<open>setTimeout\<close> does when it runs.\<close>

fun run_callback :: "callback \<Rightarrow> calculator \<Rightarrow> calculator" where
  "run_callback DoClear s = clear s"
| "run_callback (RestoreText originalText) s = s\<lparr>operationDisplayText := originalText\<rparr>"

text \<open>The events the page delivers: a number button or digit key, or an action.\<close>

datatype event = Number string | Action action

fun handle :: "event \<Rightarrow> calculator \<Rightarrow> calculator" where
  "handle (Number number) s = inputNumber number s"
| "handle (Action a) s = handleAction a s"

definition run :: "event list \<Rightarrow> calculator \<Rightarrow> calculator" where
  "run evs s = foldl (\<lambda>s ev. handle ev s) s evs"

text \<open>
  The event that the button or the key of a digit or of the decimal point raises: a digit
  calls \<^verbatim>\<open>inputNumber\<close> with the digit as a one-character string, the point calls
  \<^verbatim>\<open>handleAction('decimal')\<close>.
\<close>

definition key_event :: "char \<Rightarrow> event" where
  "key_event c = (if c = CHR ''.'' then Action ActDecimal else Number [c])"

subsection \<open>The formatting policy as specified\<close>

text \<open>
  The formatting policy in the words of the specification, to be compared with
  \<open>formatResult\<close>: the number of fractional digits of a decimal text is the number of
  characters after its point; stripping removes the zeros at the end and then a point
  left at the end; the four steps are taken in their order.
\<close>

definition fraction_digits :: "string \<Rightarrow> nat" where
  "fraction_digits s = length (drop 1 (dropWhile (\<lambda>c. c \<noteq> CHR ''.'') s))"

definition strip_fraction_zeros :: "string \<Rightarrow> string" where
  "strip_fraction_zeros s =
     (let r = dropWhile (\<lambda>c. c = CHR ''0'') (rev s)
      in rev (case r of [] \<Rightarrow> [] | c # t \<Rightarrow> if c = CHR ''.'' then t else r))"

definition formatResult_policy :: "jsnum \<Rightarrow> string" where
  "formatResult_policy v =
     (if \<not> isFinite v then ''Error''
      else
        (let rendered =
               (if js_ge (js_abs v) lit_1e12 \<or> (js_le (js_abs v) lit_1e_6 \<and> v \<noteq> Fin 0)
                then toExponential 6 v
                else if 8 < fraction_digits (toString v)
                  then strip_fraction_zeros (toFixed 8 v)
                  else toString v)
         in if 12 < length rendered then toExponential 5 v else rendered))"

section \<open>Properties\<close>

subsection \<open>Evaluation and auxiliary facts\<close>

lemma parseFloat_0: "parseFloat ''0'' = Fin 0"
  by code_simp

lemma js_strict_eq_zero: "js_strict_eq v (Fin 0) = (v = Fin 0)"
  by (cases v) auto

lemma updateDisplay_fields [simp]:
  "currentInput (updateDisplay s) = currentInput s"
  "previousInput (updateDisplay s) = previousInput s"
  "operator (updateDisplay s) = operator s"
  "waitingForNewInput (updateDisplay s) = waitingForNewInput s"
  "memory (updateDisplay s) = memory s"
  "operationDisplayText (updateDisplay s) = operationDisplayText s"
  "displayError (updateDisplay s) = False"
  "displayText (updateDisplay s) = currentInput s"
  "timers (updateDisplay s) = timers s"
  by (simp_all add: updateDisplay_def)

lemma showTemporaryMessage_fields [simp]:
  "currentInput (showTemporaryMessage m s) = currentInput s"
  "previousInput (showTemporaryMessage m s) = previousInput s"
  "operator (showTemporaryMessage m s) = operator s"
  "waitingForNewInput (showTemporaryMessage m s) = waitingForNewInput s"
  "memory (showTemporaryMessage m s) = memory s"
  "displayError (showTemporaryMessage m s) = displayError s"
  by (simp_all add: showTemporaryMessage_def)

lemma showError_fields [simp]:
  "currentInput (showError m s) = currentInput s"
  "previousInput (showError m s) = previousInput s"
  "operator (showError m s) = operator s"
  "waitingForNewInput (showError m s) = waitingForNewInput s"
  "memory (showError m s) = memory s"
  "displayError (showError m s) = True"
  "displayText (showError m s) = m"
  "operationDisplayText (showError m s) = []"
  "timers (showError m s) = timers s @ [(2000, DoClear)]"
  by (simp_all add: showError_def)

lemma memory_calculate: "memory (calculate s) = memory s"
  by (simp add: calculate_def Let_def split: option.splits)

lemma memory_handle_other:
  assumes "ev \<noteq> Action ActMemoryClear" "ev \<noteq> Action ActMemoryAdd"
    "ev \<noteq> Action ActMemorySubtract"
  shows "memory (handle ev s) = memory s"
proof (cases ev)
  case (Number number)
  then show ?thesis by (simp add: inputNumber_def)
next
  case (Action a)
  with assms show ?thesis
    by (cases a)
      (simp_all add: clear_def inputDecimal_def memory_calculate setOperator_def Let_def
        calculatePercentage_def calculateSquareRoot_def memoryRecall_def)
qed

lemma js_ge_not_lt: "js_ge v (Fin 0) \<Longrightarrow> \<not> js_lt v (Fin 0)"
  by (cases v) (auto simp: js_ge_def js_le_def)

lemma formatResult_NaN: "formatResult NaN = ''Error''"
  by (simp add: formatResult_def)

lemma apply_op_NaN_right: "apply_op oper v NaN = NaN"
  by (cases oper; cases v) (simp_all add: js_sub_def)

lemma apply_op_NaN_left: "apply_op oper NaN v = NaN"
  by (cases oper) (simp_all add: js_sub_def)

lemma js_add_NaN_right: "js_add v NaN = NaN"
  by (cases v) simp_all

lemma parseFloat_Error: "parseFloat ''Error'' = NaN"
  by code_simp

lemma parseFloat_minus_4: "parseFloat ''-4'' = Fin (- 4)"
  by code_simp

text \<open>The two ways \<open>calculate\<close> goes when an operator and a previous input are set.\<close>

lemma calculate_result:
  assumes "operator s = Some oper" and "previousInput s = Some previous"
    and "\<not> (oper = Divide \<and> parseFloat (currentInput s) = Fin 0)"
  shows "calculate s =
     updateDisplay
       (s\<lparr>operationDisplayText :=
             previous @ '' '' @ operatorSymbols oper @ '' '' @ currentInput s @ '' ='',
          currentInput :=
             formatResult (apply_op oper (parseFloat previous) (parseFloat (currentInput s))),
          operator := None, previousInput := None, waitingForNewInput := True,
          activeButton := None\<rparr>)"
  using assms by (auto simp: calculate_def Let_def js_strict_eq_zero)

lemma calculate_divide_by_zero:
  assumes "operator s = Some Divide" and "previousInput s = Some previous"
    and "parseFloat (currentInput s) = Fin 0"
  shows "calculate s = showError ''Cannot divide by zero'' s"
  using assms by (simp add: calculate_def js_strict_eq_zero)

lemma displayError_calculate:
  assumes "displayError (calculate s)"
  shows "operator s = Some Divide \<and> previousInput s \<noteq> None
    \<and> parseFloat (currentInput s) = Fin 0 \<or> displayError s"
  using assms
  by (auto simp: calculate_def Let_def js_strict_eq_zero split: option.splits if_splits)

text \<open>Runs of the calculator from its initial state.\<close>

lemma sqrt_16:
  "currentInput (run [Number ''1'', Number ''6'', Action ActSquareRoot] initial) = ''4''"
  by code_simp

lemma divide_10_by_0:
  "run [Number ''1'', Number ''0'', Action (ActOperator Divide), Number ''0''] initial
     = initial\<lparr>currentInput := ''0'', previousInput := Some ''10'', operator := Some Divide,
         waitingForNewInput := False, displayText := ''0'',
         operationDisplayText := ''10 '' @ operatorSymbols Divide, activeButton := Some Divide\<rparr>"
  by (simp add: run_def initial_def inputNumber_def updateDisplay_def setOperator_def)

lemma chain_2_3:
  "previousInput (run [Number ''2'', Action (ActOperator Add), Number ''3'',
     Action (ActOperator Multiply)] initial) = Some ''5''"
  by code_simp

lemma chain_2_3_4:
  "currentInput (run [Number ''2'', Action (ActOperator Add), Number ''3'',
     Action (ActOperator Multiply), Number ''4'', Action ActEquals] initial) = ''20''"
  by code_simp

lemma format_5_div_0: "formatResult (js_div (parseFloat ''5'') (parseFloat ''0'')) = ''Error''"
  by code_simp

lemma format_2_plus_3: "formatResult (apply_op Add (parseFloat ''2'') (parseFloat ''3'')) = ''5''"
  by code_simp

lemma format_0_percent: "formatResult (js_div (Fin 0) (Fin 100)) = ''0''"
  by code_simp

subsection \<open>Clearing\<close>

text \<open>
  Claim C9. In every state, \<open>clear\<close> sets the current input to \<open>0\<close>, unsets the previous
  input and the operator, sets the waiting flag to false, empties the operation display
  and removes the error mark of the display, and leaves the memory as it is. Of all the
  events and timer callbacks only \<open>memoryClear\<close> sets the memory to zero; the only other
  ones that write the memory are \<open>memoryAdd\<close> and \<open>memorySubtract\<close>, which add the parsed
  current input to it or subtract it.
\<close>

theorem clear_resets_all_but_memory:
  "currentInput (clear s) = ''0'' \<and> previousInput (clear s) = None
   \<and> operator (clear s) = None \<and> waitingForNewInput (clear s) = False
   \<and> operationDisplayText (clear s) = [] \<and> displayError (clear s) = False
   \<and> memory (clear s) = memory s
   \<and> memory (memoryClear s) = Fin 0
   \<and> memory (memoryAdd s) = js_add (memory s) (parseFloat (currentInput s))
   \<and> memory (memorySubtract s) = js_sub (memory s) (parseFloat (currentInput s))
   \<and> (\<forall>ev. ev \<notin> {Action ActMemoryClear, Action ActMemoryAdd, Action ActMemorySubtract}
          \<longrightarrow> memory (handle ev s) = memory s)
   \<and> (\<forall>cb. memory (run_callback cb s) = memory s)"
proof -
  have "memory (run_callback cb s) = memory s" for cb
    by (cases cb) (simp_all add: clear_def)
  then show ?thesis
    by (simp add: clear_def memoryClear_def memoryAdd_def memorySubtract_def
        memory_handle_other)
qed

theorem clear_resets_all_but_memory_witness:
  "memory (handle (Action ActClear) (initial\<lparr>memory := Fin 5, currentInput := ''7''\<rparr>)) = Fin 5
   \<and> currentInput (clear (initial\<lparr>memory := Fin 5, currentInput := ''7''\<rparr>)) = ''0''"
  using clear_resets_all_but_memory [of "initial\<lparr>memory := Fin 5, currentInput := ''7''\<rparr>"]
  by (simp add: initial_def)

subsection \<open>Percentage\<close>

text \<open>
  Claim C8. In every state, \<open>calculatePercentage\<close> sets the current input to the formatted
  quotient of the parsed current input by 100, the operation display to the old input
  followed by \<open>% =\<close> and the waiting flag to true, and leaves the operator, the previous
  input and the memory unchanged: a pending operator stays armed.
\<close>

theorem calculatePercentage_effect:
  "currentInput (calculatePercentage s)
     = formatResult (js_div (parseFloat (currentInput s)) (Fin 100))
   \<and> operationDisplayText (calculatePercentage s) = currentInput s @ ''% =''
   \<and> waitingForNewInput (calculatePercentage s) = True
   \<and> operator (calculatePercentage s) = operator s
   \<and> previousInput (calculatePercentage s) = previousInput s
   \<and> memory (calculatePercentage s) = memory s"
  by (simp add: calculatePercentage_def Let_def)

subsection \<open>Division by zero\<close>

text \<open>
  Claim C10. When \<open>calculate\<close> runs with the operator \<open>Divide\<close> and a current input that
  parses to zero, the current input, the previous input, the operator, the waiting flag
  and the memory are what they were before: the state differs at most in the display
  text, the error mark, the operation display and the scheduled callbacks. The division
  is still pending afterwards, until the clearing callback runs and unsets the operator.
\<close>

theorem divide_by_zero_keeps_engine_state:
  assumes "operator s = Some Divide" and "parseFloat (currentInput s) = Fin 0"
  shows "currentInput (calculate s) = currentInput s
   \<and> previousInput (calculate s) = previousInput s
   \<and> operator (calculate s) = Some Divide
   \<and> waitingForNewInput (calculate s) = waitingForNewInput s
   \<and> memory (calculate s) = memory s
   \<and> (\<exists>text mark trace pending.
         calculate s = s\<lparr>displayText := text, displayError := mark,
                          operationDisplayText := trace, timers := pending\<rparr>)
   \<and> operator (run_callback DoClear (calculate s)) = None"
proof (cases "previousInput s")
  case None
  have "s = s\<lparr>displayText := displayText s, displayError := displayError s,
               operationDisplayText := operationDisplayText s, timers := timers s\<rparr>"
    by simp
  then have "\<exists>text mark trace pending.
      s = s\<lparr>displayText := text, displayError := mark,
             operationDisplayText := trace, timers := pending\<rparr>"
    by blast
  with None assms show ?thesis
    by (simp add: calculate_def clear_def)
next
  case (Some previous)
  with assms have "calculate s = showError ''Cannot divide by zero'' s"
    by (simp add: calculate_def js_strict_eq_zero)
  with assms show ?thesis
    by (auto simp: showError_def clear_def)
qed

theorem divide_by_zero_keeps_engine_state_witness:
  "operator (calculate (initial\<lparr>previousInput := Some ''5'', operator := Some Divide\<rparr>))
     = Some Divide
   \<and> currentInput (calculate (initial\<lparr>previousInput := Some ''5'', operator := Some Divide\<rparr>))
     = ''0''"
  using divide_by_zero_keeps_engine_state
    [of "initial\<lparr>previousInput := Some ''5'', operator := Some Divide\<rparr>"] parseFloat_0
  by (simp add: initial_def)

text \<open>
  Claim C5. When an operator \<open>Divide\<close> and a previous input are pending and the current
  input parses to zero, \<open>calculate\<close> marks the display as an error, shows the message
  \<open>Cannot divide by zero\<close>, empties the operation display, produces no result (the
  current input stays) and schedules \<open>clear\<close> after 2000 ms; that callback, whenever it
  runs, leaves the current input \<open>0\<close> and removes the error mark. An event puts the error
  mark on a display that did not have it only when it is equals or an operator with a
  pending division by zero, or the square root of an input that parses to a negative
  number; no timer callback ever sets the mark.
\<close>

theorem divide_by_zero_enters_error_state:
  "(operator s = Some Divide \<and> previousInput s = Some previous
      \<and> parseFloat (currentInput s) = Fin 0 \<longrightarrow>
        displayError (calculate s)
        \<and> displayText (calculate s) = ''Cannot divide by zero''
        \<and> operationDisplayText (calculate s) = []
        \<and> currentInput (calculate s) = currentInput s
        \<and> timers (calculate s) = timers s @ [(2000, DoClear)])
   \<and> currentInput (run_callback DoClear s) = ''0''
   \<and> \<not> displayError (run_callback DoClear s)
   \<and> (\<not> displayError s \<and> displayError (handle ev s) \<longrightarrow>
        (ev = Action ActEquals \<or> (\<exists>oper. ev = Action (ActOperator oper)))
          \<and> operator s = Some Divide \<and> previousInput s \<noteq> None
          \<and> parseFloat (currentInput s) = Fin 0
        \<or> ev = Action ActSquareRoot \<and> js_lt (parseFloat (currentInput s)) (Fin 0))
   \<and> (displayError (run_callback cb s) \<longrightarrow> displayError s)"
proof -
  have only: "(ev = Action ActEquals \<or> (\<exists>oper. ev = Action (ActOperator oper)))
          \<and> operator s = Some Divide \<and> previousInput s \<noteq> None
          \<and> parseFloat (currentInput s) = Fin 0
        \<or> ev = Action ActSquareRoot \<and> js_lt (parseFloat (currentInput s)) (Fin 0)"
    if clean: "\<not> displayError s" and err: "displayError (handle ev s)"
  proof (cases ev)
    case (Number number)
    with err show ?thesis by (simp add: inputNumber_def)
  next
    case (Action a)
    show ?thesis
    proof (cases a)
      case ActEquals
      with Action err clean displayError_calculate [of s] show ?thesis by auto
    next
      case (ActOperator oper)
      with Action err have "displayError (calculate s)"
        by (auto simp: setOperator_def Let_def clean split: if_splits)
      with Action ActOperator clean displayError_calculate [of s] show ?thesis by auto
    next
      case ActSquareRoot
      with Action err show ?thesis
        by (auto simp: calculateSquareRoot_def Let_def split: if_splits)
    qed (use Action err clean in \<open>simp_all add: clear_def inputDecimal_def
          calculatePercentage_def Let_def memoryClear_def memoryRecall_def memoryAdd_def
          memorySubtract_def\<close>)
  qed
  have cb: "displayError (run_callback cb s) \<longrightarrow> displayError s"
    by (cases cb) (simp_all add: clear_def)
  show ?thesis
    using only cb by (auto simp: calculate_divide_by_zero clear_def)
qed

theorem divide_by_zero_enters_error_state_witness:
  "displayError (run [Number ''1'', Number ''0'', Action (ActOperator Divide), Number ''0'',
       Action ActEquals] initial)
   \<and> displayText (run [Number ''1'', Number ''0'', Action (ActOperator Divide), Number ''0'',
       Action ActEquals] initial) = ''Cannot divide by zero''
   \<and> timers (run [Number ''1'', Number ''0'', Action (ActOperator Divide), Number ''0'',
       Action ActEquals] initial) = [(2000, DoClear)]"
proof -
  let ?s = "run [Number ''1'', Number ''0'', Action (ActOperator Divide), Number ''0''] initial"
  have "run [Number ''1'', Number ''0'', Action (ActOperator Divide), Number ''0'',
       Action ActEquals] initial = calculate ?s"
    by (simp add: run_def)
  moreover have "operator ?s = Some Divide \<and> previousInput ?s = Some ''10''
      \<and> parseFloat (currentInput ?s) = Fin 0 \<and> timers ?s = []"
    unfolding divide_10_by_0 by (simp add: parseFloat_0 initial_def)
  ultimately show ?thesis
    using divide_by_zero_enters_error_state [of ?s "''10''"] by simp
qed

subsection \<open>Square root\<close>

text \<open>
  Claim C6. In every state: when the current input parses to a number below zero,
  \<open>calculateSquareRoot\<close> shows the message \<open>Invalid input for square root\<close>, marks the
  display as an error, empties the operation display and schedules the clearing, and
  changes nothing else; when it parses to a number at least zero, the current input
  becomes the formatted square root, the operation display the root sign, the old input
  and \<open>=\<close>, and the waiting flag true. Entering 16 and taking the root gives \<open>4\<close>.
\<close>

theorem calculateSquareRoot_effect:
  "(js_lt (parseFloat (currentInput s)) (Fin 0) \<longrightarrow>
      calculateSquareRoot s =
        s\<lparr>displayText := ''Invalid input for square root'', displayError := True,
            operationDisplayText := [], timers := timers s @ [(2000, DoClear)]\<rparr>)
   \<and> (js_ge (parseFloat (currentInput s)) (Fin 0) \<longrightarrow>
        currentInput (calculateSquareRoot s)
          = formatResult (Math_sqrt (parseFloat (currentInput s)))
        \<and> operationDisplayText (calculateSquareRoot s) = root_sign @ currentInput s @ '' =''
        \<and> waitingForNewInput (calculateSquareRoot s) = True)
   \<and> currentInput (run [Number ''1'', Number ''6'', Action ActSquareRoot] initial) = ''4''"
  by (auto simp: calculateSquareRoot_def Let_def showError_def sqrt_16 dest: js_ge_not_lt)

theorem calculateSquareRoot_effect_witness:
  "displayText (calculateSquareRoot (initial\<lparr>currentInput := ''-4''\<rparr>))
     = ''Invalid input for square root''
   \<and> displayError (calculateSquareRoot (initial\<lparr>currentInput := ''-4''\<rparr>))
   \<and> currentInput (calculateSquareRoot (initial\<lparr>currentInput := ''-4''\<rparr>)) = ''-4''
   \<and> waitingForNewInput (calculateSquareRoot initial)"
  using calculateSquareRoot_effect [of "initial\<lparr>currentInput := ''-4''\<rparr>"]
    calculateSquareRoot_effect [of initial] parseFloat_minus_4 parseFloat_0
  by (simp add: initial_def js_ge_def js_le_def)

subsection \<open>Strings that are not numbers\<close>

text \<open>
  Claim C4 says that a current or previous input that is not a number is taken as zero.
  It is not: \<open>parseFloat\<close> gives NaN for the text \<open>Error\<close>, the percentage of that
  input is \<open>Error\<close> again where the percentage of zero is \<open>0\<close>, and adding it to a
  memory of zero leaves NaN in the memory where adding zero leaves zero.
\<close>

theorem malformed_entry_is_not_zero_counterexample:
  "parseFloat ''Error'' = NaN
   \<and> currentInput (calculatePercentage (initial\<lparr>currentInput := ''Error''\<rparr>)) = ''Error''
   \<and> formatResult (js_div (Fin 0) (Fin 100)) = ''0''
   \<and> memory (memoryAdd (initial\<lparr>currentInput := ''Error''\<rparr>)) = NaN
   \<and> js_add (memory initial) (Fin 0) = Fin 0"
proof -
  have percent: "currentInput (calculatePercentage (initial\<lparr>currentInput := ''Error''\<rparr>)) = ''Error''"
    by (simp add: calculatePercentage_def parseFloat_Error formatResult_NaN)
  have added: "memory (memoryAdd (initial\<lparr>currentInput := ''Error''\<rparr>)) = NaN"
    by (simp add: memoryAdd_def parseFloat_Error js_add_NaN_right)
  have zero: "js_add (memory initial) (Fin 0) = Fin 0"
    by code_simp
  from parseFloat_Error percent format_0_percent added zero show ?thesis
    by blast
qed

text \<open>
  Claim C4, amended. An input that parses to NaN is not taken as zero; the NaN goes
  through the operation. When the current input parses to NaN, \<open>calculatePercentage\<close>
  leaves the current input \<open>Error\<close>, \<open>memoryAdd\<close> and \<open>memorySubtract\<close> leave NaN in the
  memory, and \<open>calculate\<close> with an operator and a previous input pending leaves the
  current input \<open>Error\<close>. When the previous input parses to NaN, \<open>calculate\<close> leaves the
  current input \<open>Error\<close> as well, unless the pending operation is a division by an input
  that parses to zero.
\<close>

theorem malformed_entry_propagates:
  "(parseFloat (currentInput s) = NaN \<longrightarrow>
      currentInput (calculatePercentage s) = ''Error''
      \<and> memory (memoryAdd s) = NaN
      \<and> memory (memorySubtract s) = NaN
      \<and> (operator s = Some oper \<and> previousInput s = Some previous \<longrightarrow>
           currentInput (calculate s) = ''Error''))
   \<and> (operator s = Some oper \<and> previousInput s = Some previous
        \<and> parseFloat previous = NaN
        \<and> \<not> (oper = Divide \<and> parseFloat (currentInput s) = Fin 0) \<longrightarrow>
          currentInput (calculate s) = ''Error'')"
  by (auto simp: calculatePercentage_def memoryAdd_def memorySubtract_def js_sub_def
      js_add_NaN_right formatResult_NaN calculate_result apply_op_NaN_right apply_op_NaN_left)

theorem malformed_entry_propagates_witness:
  "currentInput (calculate (initial\<lparr>currentInput := ''Error'', previousInput := Some ''2'',
       operator := Some Add\<rparr>)) = ''Error''
   \<and> memory (memorySubtract (initial\<lparr>currentInput := ''Error'', previousInput := Some ''2'',
       operator := Some Add\<rparr>)) = NaN"
  using malformed_entry_propagates [of "initial\<lparr>currentInput := ''Error'',
      previousInput := Some ''2'', operator := Some Add\<rparr>" Add "''2''"] parseFloat_Error
  by simp

subsection \<open>Chaining operators\<close>

text \<open>
  Claim C1 says that an operator entered while another is pending and the waiting flag is
  false always makes the formatted result of the pending computation the new previous
  input. After 5, divide, 0 the operator add makes the previous input \<open>0\<close>, the
  unchanged current input, while the formatted quotient of 5 by 0 would be \<open>Error\<close>.
\<close>

theorem chaining_divide_by_zero_counterexample:
  "operator (run [Number ''5'', Action (ActOperator Divide), Number ''0''] initial) = Some Divide
   \<and> waitingForNewInput (run [Number ''5'', Action (ActOperator Divide), Number ''0''] initial)
       = False
   \<and> previousInput (run [Number ''5'', Action (ActOperator Divide), Number ''0'',
       Action (ActOperator Add)] initial) = Some ''0''
   \<and> formatResult (js_div (parseFloat ''5'') (parseFloat ''0'')) = ''Error''"
  using format_5_div_0
  by (simp add: run_def inputNumber_def setOperator_def calculate_def parseFloat_0 initial_def
      Let_def)

text \<open>
  Claim C1, amended. When an operator and a previous input are pending and the waiting
  flag is false, \<open>setOperator\<close> evaluates the pending computation first. Unless that is a
  division by an input that parses to zero, its formatted result becomes the current and
  the previous input, the new operator is set and the waiting flag is true. When it is
  such a division, no result is produced: the error message is shown and the current
  input stays. From the initial state, 2, add, 3, multiply makes the previous input
  \<open>5\<close>, and 4, equals after that makes the current input \<open>20\<close>.
\<close>

theorem setOperator_chaining:
  assumes "operator s = Some pending" and "previousInput s = Some previous"
    and "\<not> waitingForNewInput s"
  shows "(\<not> (pending = Divide \<and> parseFloat (currentInput s) = Fin 0) \<longrightarrow>
      previousInput (setOperator newOperator s)
        = Some (formatResult (apply_op pending (parseFloat previous) (parseFloat (currentInput s))))
      \<and> currentInput (setOperator newOperator s)
        = formatResult (apply_op pending (parseFloat previous) (parseFloat (currentInput s)))
      \<and> operator (setOperator newOperator s) = Some newOperator
      \<and> waitingForNewInput (setOperator newOperator s))
   \<and> (pending = Divide \<and> parseFloat (currentInput s) = Fin 0 \<longrightarrow>
        displayError (setOperator newOperator s)
        \<and> displayText (setOperator newOperator s) = ''Cannot divide by zero''
        \<and> currentInput (setOperator newOperator s) = currentInput s)
   \<and> previousInput (run [Number ''2'', Action (ActOperator Add), Number ''3'',
            Action (ActOperator Multiply)] initial) = Some ''5''
   \<and> currentInput (run [Number ''2'', Action (ActOperator Add), Number ''3'',
            Action (ActOperator Multiply), Number ''4'', Action ActEquals] initial) = ''20''"
proof (cases "pending = Divide \<and> parseFloat (currentInput s) = Fin 0")
  case True
  with assms have "calculate s = showError ''Cannot divide by zero'' s"
    by (simp add: calculate_divide_by_zero)
  with True assms show ?thesis
    by (simp add: setOperator_def chain_2_3 chain_2_3_4)
next
  case False
  from calculate_result [OF assms(1,2) False] False assms show ?thesis
    by (simp add: setOperator_def chain_2_3 chain_2_3_4)
qed

theorem setOperator_chaining_witness:
  "previousInput (setOperator Multiply (initial\<lparr>currentInput := ''3'',
       previousInput := Some ''2'', operator := Some Add\<rparr>)) = Some ''5''"
  using setOperator_chaining [of "initial\<lparr>currentInput := ''3'', previousInput := Some ''2'',
      operator := Some Add\<rparr>" Add "''2''" Multiply] format_2_plus_3
  by (simp add: initial_def)

subsection \<open>Formatting\<close>

lemma digit_char_digit: "digit_char d \<in> set ''0123456789''"
proof -
  have "nat (d mod 10) < length ''0123456789''"
    by simp
  then have "''0123456789'' ! nat (d mod 10) \<in> set ''0123456789''"
    by (rule nth_mem)
  then show ?thesis
    by (simp only: digit_char_def)
qed

lemma digit_char_not_point: "digit_char d \<noteq> CHR ''.''"
  using digit_char_digit [of d] by auto

lemma digits_of_no_point: "CHR ''.'' \<notin> set (digits_of n)"
proof (induction n rule: digits_of.induct)
  case (1 n)
  show ?case
  proof (cases "n < 10")
    case True
    then show ?thesis
      using digit_char_not_point [of n] by (subst digits_of.simps) auto
  next
    case False
    with 1 show ?thesis
      using digit_char_not_point [of "n mod 10"] by (subst digits_of.simps) auto
  qed
qed

lemma digits_of_nonempty: "digits_of n \<noteq> []"
  by (subst digits_of.simps) simp

lemma zeros_no_point: "CHR ''.'' \<notin> set (zeros n)"
  by (simp add: zeros_def)

lemma exponent_text_no_point: "CHR ''.'' \<notin> set (exponent_text e)"
  by (simp add: exponent_text_def digits_of_no_point)

lemma count_point_0: "CHR ''.'' \<notin> set s \<Longrightarrow> count_list s (CHR ''.'') = 0"
  by (simp add: count_list_0_iff)

lemma take_no_point: "CHR ''.'' \<notin> set s \<Longrightarrow> CHR ''.'' \<notin> set (take n s)"
  by (auto dest: in_set_takeD)

lemma drop_no_point: "CHR ''.'' \<notin> set s \<Longrightarrow> CHR ''.'' \<notin> set (drop n s)"
  by (auto dest: in_set_dropD)

lemma toString_pos_points: "count_list (toString_pos a) (CHR ''.'') \<le> 1"
proof -
  have "count_list (digits_of s) (CHR ''.'') = 0"
    "count_list (take k (digits_of s)) (CHR ''.'') = 0"
    "count_list (drop k (digits_of s)) (CHR ''.'') = 0"
    "count_list (zeros m) (CHR ''.'') = 0"
    "count_list (exponent_text e) (CHR ''.'') = 0" for s k m e
    using digits_of_no_point [of s] zeros_no_point [of m] exponent_text_no_point [of e]
    by (simp_all add: count_point_0 take_no_point drop_no_point)
  then show ?thesis
    by (simp add: toString_pos_def Let_def split: prod.splits)
qed

lemma toString_points: "count_list (toString v) (CHR ''.'') \<le> 1"
  using toString_pos_points by (cases v) simp_all

lemma split_dot_1_fraction:
  assumes "count_list s (CHR ''.'') \<le> 1"
  shows "(if CHR ''.'' \<in> set s then length (split_dot_1 s) else 0) = fraction_digits s"
proof (cases "dropWhile (\<lambda>c. c \<noteq> CHR ''.'') s")
  case Nil
  then have "CHR ''.'' \<notin> set s"
    by (auto simp: dropWhile_eq_Nil_conv)
  then show ?thesis
    unfolding fraction_digits_def Nil by simp
next
  case (Cons c r)
  then have c: "c = CHR ''.''"
    using hd_dropWhile [of "\<lambda>c. c \<noteq> CHR ''.''" s] by simp
  have whole: "takeWhile (\<lambda>c. c \<noteq> CHR ''.'') s @ CHR ''.'' # r = s"
    using Cons c takeWhile_dropWhile_id [of "\<lambda>c. c \<noteq> CHR ''.''" s] by simp
  have "count_list (takeWhile (\<lambda>c. c \<noteq> CHR ''.'') s @ CHR ''.'' # r) (CHR ''.'')
      = count_list (takeWhile (\<lambda>c. c \<noteq> CHR ''.'') s) (CHR ''.'') + 1 + count_list r (CHR ''.'')"
    by simp
  with assms have "count_list r (CHR ''.'') = 0"
    unfolding whole by simp
  then have "CHR ''.'' \<notin> set r"
    by (simp add: count_list_0_iff)
  then have "takeWhile (\<lambda>c. c \<noteq> CHR ''.'') r = r"
    by (auto simp: takeWhile_eq_all_conv)
  then have rest: "length (takeWhile (\<lambda>c. c \<noteq> CHR ''.'') r) = length r"
    by (simp only:)
  have "CHR ''.'' \<in> set (takeWhile (\<lambda>c. c \<noteq> CHR ''.'') s @ CHR ''.'' # r)"
    by simp
  then have "CHR ''.'' \<in> set s"
    unfolding whole .
  with rest show ?thesis
    unfolding fraction_digits_def split_dot_1_def Cons by simp
qed

lemma remove_trailing_zeros_strip:
  assumes "s \<noteq> []" "last s \<noteq> CHR ''.''"
  shows "remove_trailing_zeros s = strip_fraction_zeros s"
proof -
  define r where "r = dropWhile (\<lambda>c. c = CHR ''0'') (rev s)"
  have strip: "strip_fraction_zeros s
      = rev (case r of [] \<Rightarrow> [] | c # t \<Rightarrow> if c = CHR ''.'' then t else r)"
    by (simp only: strip_fraction_zeros_def Let_def r_def)
  have remove: "remove_trailing_zeros s
      = (if r = rev s then s
         else (case r of [] \<Rightarrow> [] | c # t \<Rightarrow> if c = CHR ''.'' then rev t else rev r))"
    by (simp only: remove_trailing_zeros_def Let_def r_def)
  show ?thesis
  proof (cases "r = rev s")
    case True
    from assms obtain c t where ct: "rev s = c # t" "c \<noteq> CHR ''.''"
      by (cases "rev s") (auto simp: last_rev [symmetric] simp del: last_rev)
    have "rev (rev s) = s"
      by simp
    with True ct show ?thesis
      unfolding strip remove by (simp del: rev_rev_ident)
  next
    case False
    then show ?thesis
      unfolding strip remove by (cases r) simp_all
  qed
qed

lemma toFixed_pos_8_last:
  "toFixed_pos 8 a \<noteq> [] \<and> last (toFixed_pos 8 a) \<noteq> CHR ''.''"
proof -
  define n where "n = round_half_up (a * of_int (10 ^ 8))"
  define m where "m = (if length (digits_of n) \<le> 8
      then zeros (int 8 + 1 - int (length (digits_of n))) @ digits_of n else digits_of n)"
  have len: "8 < length m"
    by (auto simp: m_def zeros_def)
  have "CHR ''.'' \<notin> set m"
    by (simp add: m_def zeros_no_point digits_of_no_point)
  then have "CHR ''.'' \<notin> set (drop (length m - 8) m)"
    by (rule drop_no_point)
  moreover from len have "drop (length m - 8) m \<noteq> []"
    by simp
  ultimately have "last (drop (length m - 8) m) \<noteq> CHR ''.''"
    using last_in_set by metis
  moreover have "toFixed_pos 8 a = take (length m - 8) m @ ''.'' @ drop (length m - 8) m"
    by (simp add: toFixed_pos_def Let_def m_def n_def)
  ultimately show ?thesis
    using \<open>drop (length m - 8) m \<noteq> []\<close> by simp
qed

lemma lit_1e12_value: "lit_1e12 = Fin 1000000000000"
  by code_simp

lemma toFixed_8_last:
  assumes "\<not> js_ge (js_abs (Fin x)) lit_1e12"
  shows "toFixed 8 (Fin x) \<noteq> [] \<and> last (toFixed 8 (Fin x)) \<noteq> CHR ''.''"
proof -
  from assms have "\<bar>x\<bar> < 1000000000000"
    by (auto simp: lit_1e12_value js_ge_def js_le_def)
  then have small: "\<not> 10 ^ 21 \<le> \<bar>x\<bar>"
    by simp
  show ?thesis
    using toFixed_pos_8_last [of x] toFixed_pos_8_last [of "- x"] small
    by (simp del: One_nat_def)
qed

lemma lit_1234: "formatResult (round_double 1234567890123) = ''1.234568e+12''"
  by code_simp

lemma lit_small: "formatResult (round_double (1234 / 10 ^ 10)) = ''1.234000e-7''"
  by code_simp

lemma lit_pi: "formatResult (round_double (314159265358979 / 10 ^ 14)) = ''3.14159265''"
  by code_simp

text \<open>
  Claim C2. For every number, \<open>formatResult\<close> is the four-step policy: \<open>Error\<close> for a
  number that is not finite; else the exponential notation with six fractional digits
  when the magnitude is at least \<open>1e12\<close>, or at most \<open>1e-6\<close> and the number is not zero;
  else the decimal text of the number, replaced by its rounding to eight fractional
  digits with the zeros at the end and a point left at the end stripped when it has more
  than eight fractional digits; and the exponential notation with five fractional digits
  when the text so far has more than twelve characters. The numbers \<open>1234567890123\<close>
  and \<open>0.0000001234\<close> are formatted with an exponent and six fractional digits, and
  \<open>3.14159265358979\<close> as \<open>3.14159265\<close>.
\<close>

theorem formatResult_follows_policy:
  "formatResult v = formatResult_policy v
   \<and> formatResult (round_double 1234567890123) = ''1.234568e+12''
   \<and> formatResult (round_double (1234 / 10 ^ 10)) = ''1.234000e-7''
   \<and> formatResult (round_double (314159265358979 / 10 ^ 14)) = ''3.14159265''"
proof -
  have "formatResult v = formatResult_policy v"
  proof (cases v)
    case (Fin x)
    have places: "(if CHR ''.'' \<in> set (toString v) then length (split_dot_1 (toString v)) else 0)
        = fraction_digits (toString v)"
      by (rule split_dot_1_fraction [OF toString_points])
    have zero: "js_strict_eq v (Fin 0) = (v = Fin 0)"
      by (rule js_strict_eq_zero)
    show ?thesis
    proof (cases "js_ge (js_abs v) lit_1e12")
      case True
      show ?thesis
        unfolding formatResult_def formatResult_policy_def Let_def places zero
        by (simp only: True simp_thms if_True)
    next
      case False
      have "toFixed 8 v \<noteq> [] \<and> last (toFixed 8 v) \<noteq> CHR ''.''"
        using toFixed_8_last [of x] False Fin by simp
      then have strip: "remove_trailing_zeros (toFixed 8 v) = strip_fraction_zeros (toFixed 8 v)"
        by (intro remove_trailing_zeros_strip) simp_all
      show ?thesis
        unfolding formatResult_def formatResult_policy_def Let_def places zero strip
        by (rule refl)
    qed
  qed (simp_all add: formatResult_def formatResult_policy_def)
  with lit_1234 lit_small lit_pi show ?thesis
    by (simp only: simp_thms)
qed


subsection \<open>Entering a number\<close>

text \<open>Typing digits and the decimal point.\<close>

lemma run_Nil [simp]: "run [] s = s"
  by (simp add: run_def)

lemma run_Cons [simp]: "run (ev # evs) s = run evs (handle ev s)"
  by (simp add: run_def)

lemma handle_digit_appends:
  assumes "\<not> waitingForNewInput s" "currentInput s \<noteq> ''0''" "c \<noteq> CHR ''.''"
  shows "currentInput (handle (key_event c) s)
           = (if length (currentInput s) < 12 then currentInput s @ [c] else currentInput s)
         \<and> \<not> waitingForNewInput (handle (key_event c) s)"
  using assms by (simp add: key_event_def inputNumber_def)

lemma handle_point_appends:
  assumes "\<not> waitingForNewInput s" "CHR ''.'' \<notin> set (currentInput s)"
  shows "currentInput (handle (key_event (CHR ''.'')) s) = currentInput s @ ''.''
         \<and> \<not> waitingForNewInput (handle (key_event (CHR ''.'')) s)"
  using assms by (simp add: key_event_def inputDecimal_def)

lemma snoc_not_zero: "cur \<noteq> [] \<Longrightarrow> cur @ [c] \<noteq> ''0''"
  by (cases cur) auto

lemma keys_append:
  assumes "\<not> waitingForNewInput s" "currentInput s \<noteq> ''0''" "currentInput s \<noteq> []"
    and "count_list (currentInput s @ ks) (CHR ''.'') \<le> 1"
    and "length (currentInput s) + length ks \<le> 12"
  shows "currentInput (run (map key_event ks) s) = currentInput s @ ks"
  using assms
proof (induction ks arbitrary: s)
  case Nil
  then show ?case by simp
next
  case (Cons c ks)
  let ?s = "handle (key_event c) s"
  have step: "currentInput ?s = currentInput s @ [c] \<and> \<not> waitingForNewInput ?s"
  proof (cases "c = CHR ''.''")
    case True
    with Cons.prems(4) have "count_list (currentInput s) (CHR ''.'') = 0"
      by simp
    then have "CHR ''.'' \<notin> set (currentInput s)"
      by (simp add: count_list_0_iff)
    with True Cons.prems(1) show ?thesis
      using handle_point_appends [of s] by simp
  next
    case False
    with Cons.prems show ?thesis
      using handle_digit_appends [of s c] by simp
  qed
  have "currentInput (run (map key_event ks) ?s) = currentInput ?s @ ks"
  proof (rule Cons.IH)
    show "\<not> waitingForNewInput ?s" using step by simp
    show "currentInput ?s \<noteq> ''0''" using step Cons.prems(3) by (simp add: snoc_not_zero)
    show "currentInput ?s \<noteq> []" using step by simp
    show "count_list (currentInput ?s @ ks) (CHR ''.'') \<le> 1"
      using step Cons.prems(4) by simp
    show "length (currentInput ?s) + length ks \<le> 12"
      using step Cons.prems(5) by simp
  qed
  with step show ?case by simp
qed

lemma digits_append_capped:
  assumes "\<not> waitingForNewInput s" "currentInput s \<noteq> ''0''" "currentInput s \<noteq> []"
    and "CHR ''.'' \<notin> set ks"
  shows "currentInput (run (map key_event ks) s)
           = currentInput s @ take (12 - length (currentInput s)) ks"
  using assms
proof (induction ks arbitrary: s)
  case Nil
  then show ?case by simp
next
  case (Cons c ks)
  let ?s = "handle (key_event c) s"
  from Cons.prems have c: "c \<noteq> CHR ''.''" and ks: "CHR ''.'' \<notin> set ks"
    by auto
  from Cons.prems c have step:
    "currentInput ?s = (if length (currentInput s) < 12 then currentInput s @ [c] else currentInput s)"
    "\<not> waitingForNewInput ?s"
    using handle_digit_appends [of s c] by simp_all
  have nz: "currentInput ?s \<noteq> ''0''" "currentInput ?s \<noteq> []"
    using step(1) Cons.prems(2,3) by (simp_all add: snoc_not_zero)
  have "currentInput (run (map key_event ks) ?s)
          = currentInput ?s @ take (12 - length (currentInput ?s)) ks"
    by (rule Cons.IH [OF step(2) nz ks])
  then show ?case
    using step(1) by (cases "length (currentInput s) < 12") (simp_all add: take_Cons')
qed

lemma keys_from_zero:
  assumes "length ks \<le> 12"
    and "count_list ks (CHR ''.'') \<le> 1"
    and "currentInput s = ''0''" "\<not> waitingForNewInput s"
  shows "currentInput (run (map key_event ks) s)
    = take 12 (case dropWhile (\<lambda>c. c = CHR ''0'') ks of
                 [] \<Rightarrow> ''0''
               | c # r \<Rightarrow> if c = CHR ''.'' then CHR ''0'' # c # r else c # r)"
  using assms
proof (induction ks arbitrary: s)
  case Nil
  then show ?case by simp
next
  case (Cons c ks)
  let ?s = "handle (key_event c) s"
  consider (zero) "c = CHR ''0''" | (point) "c = CHR ''.''"
    | (other) "c \<noteq> CHR ''0''" "c \<noteq> CHR ''.''"
    by blast
  then show ?case
  proof cases
    case zero
    with Cons.prems have "currentInput ?s = ''0''" "\<not> waitingForNewInput ?s"
      by (simp_all add: key_event_def inputNumber_def)
    moreover from zero Cons.prems(2) have "count_list ks (CHR ''.'') \<le> 1"
      by simp
    moreover from Cons.prems(1) have "length ks \<le> 12"
      by simp
    ultimately have "currentInput (run (map key_event ks) ?s)
      = take 12 (case dropWhile (\<lambda>c. c = CHR ''0'') ks of
                 [] \<Rightarrow> ''0''
               | c # r \<Rightarrow> if c = CHR ''.'' then CHR ''0'' # c # r else c # r)"
      by (intro Cons.IH)
    with zero show ?thesis by simp
  next
    case point
    with Cons.prems have st: "currentInput ?s = ''0.''" "\<not> waitingForNewInput ?s"
      by (simp_all add: key_event_def inputDecimal_def)
    from point Cons.prems(2) have "count_list ks (CHR ''.'') = 0"
      by simp
    then have "CHR ''.'' \<notin> set ks"
      by (simp add: count_list_0_iff)
    with st have "currentInput (run (map key_event ks) ?s) = ''0.'' @ take 10 ks"
      using digits_append_capped [of ?s ks] by simp
    with point show ?thesis by simp
  next
    case other
    with Cons.prems have st: "currentInput ?s = [c]" "\<not> waitingForNewInput ?s"
      by (simp_all add: key_event_def inputNumber_def)
    with other Cons.prems have "currentInput (run (map key_event ks) ?s) = [c] @ ks"
      using keys_append [of ?s ks] by simp
    with other Cons.prems(1) show ?thesis by simp
  qed
qed

text \<open>
  Claim C3 says that every sequence of at most twelve digits and points with at most one
  point, typed into the cleared state, leaves the current input equal to the sequence,
  leading zeros collapsed. A sequence that starts with the point does not: the \<open>0\<close> of
  the cleared state stays in front of it, so \<open>.5\<close> leaves \<open>0.5\<close>, and a twelve-character
  sequence loses its last digit to the cap.
\<close>

theorem point_first_counterexample:
  "set ''.5'' \<subseteq> set ''0123456789.'' \<and> length ''.5'' \<le> 12
   \<and> count_list ''.5'' (CHR ''.'') \<le> 1
   \<and> currentInput (run (map key_event ''.5'') initial) = ''0.5''
   \<and> currentInput (run (map key_event ''.12345678901'') initial) = ''0.1234567890''"
  by code_simp

text \<open>
  Claim C3, amended. Let a sequence of at most twelve digits and points with at most one
  point be typed into a state whose current input is \<open>0\<close> and whose waiting flag is
  false. The current input is then the sequence without its leading zeros, with a \<open>0\<close>
  in front when nothing is left or a point comes first, cut to twelve characters. In
  particular a sequence that starts with a digit other than \<open>0\<close> is the current input as
  it is, and \<open>5\<close> typed on \<open>0\<close> gives \<open>5\<close>. A \<open>0\<close> typed on \<open>0\<close>, a digit typed on an
  input of twelve characters or more and a point typed on an input that has one change
  nothing but the rendering of the display.
\<close>

theorem entry_builds_sequence:
  assumes "set ks \<subseteq> set ''0123456789.''" and "length ks \<le> 12"
    and "count_list ks (CHR ''.'') \<le> 1"
    and "currentInput s = ''0''" and "\<not> waitingForNewInput s"
  shows "currentInput (run (map key_event ks) s)
      = take 12 (case dropWhile (\<lambda>c. c = CHR ''0'') ks of
                   [] \<Rightarrow> ''0''
                 | c # r \<Rightarrow> if c = CHR ''.'' then CHR ''0'' # c # r else c # r)
   \<and> (\<forall>c r. ks = c # r \<and> c \<noteq> CHR ''0'' \<and> c \<noteq> CHR ''.'' \<longrightarrow>
         currentInput (run (map key_event ks) s) = ks)
   \<and> currentInput (inputNumber ''5'' s) = ''5''
   \<and> inputNumber ''0'' s = updateDisplay s
   \<and> (\<not> waitingForNewInput t \<and> currentInput t \<noteq> ''0'' \<and> 12 \<le> length (currentInput t) \<longrightarrow>
         inputNumber [d] t = updateDisplay t)
   \<and> (\<not> waitingForNewInput t \<and> CHR ''.'' \<in> set (currentInput t) \<longrightarrow>
         inputDecimal t = updateDisplay t)"
proof -
  note main = keys_from_zero [OF assms(2-5)]
  have exact: "currentInput (run (map key_event ks) s) = ks"
    if "ks = c # r" "c \<noteq> CHR ''0''" "c \<noteq> CHR ''.''" for c r
    using main that assms(2) by simp
  from main exact assms(4,5) show ?thesis
    by (auto simp: inputNumber_def inputDecimal_def)
qed

theorem entry_builds_sequence_witness:
  "currentInput (run (map key_event ''007.25'') initial) = ''7.25''"
proof -
  have keys: "set ''007.25'' \<subseteq> set ''0123456789.''"
    by simp
  have len: "length ''007.25'' \<le> 12"
    by simp
  have points: "count_list ''007.25'' (CHR ''.'') \<le> 1"
    by simp
  have start: "currentInput initial = ''0''" "\<not> waitingForNewInput initial"
    by (simp_all add: initial_def)
  from entry_builds_sequence [OF keys len points start, THEN conjunct1]
  show ?thesis by simp
qed

subsection \<open>The length of the current input\<close>

text \<open>
  Claim C7 says that the current input never exceeds twelve characters while it is typed.
  \<open>inputNumber\<close> checks the length before it appends a digit (\<^verbatim>\<open>Limit input length to
  prevent display overflow\<close>), \<open>inputDecimal\<close> does not: after twelve digits the point is
  still appended, and the current input has thirteen characters.
\<close>

theorem decimal_point_exceeds_cap:
  "currentInput (run (map key_event ''123456789012.'') initial) = ''123456789012.''
   \<and> length (currentInput (run (map key_event ''123456789012.'') initial)) = 13"
  by code_simp

end
